theory Spec2Isabelle
  imports Complex_Main
begin

section \<open>Python values, errors and slicing\<close>

text \<open>
  The analyzer is Python over numpy arrays. A finite floating-point number is a
  \<^typ>\<open>real\<close>; indexes are Python integers (\<^typ>\<open>int\<close>); an array or list is a HOL list.
  The threshold search and the volume pass round every result as float64 does (section
  \<open>float64 arithmetic\<close>); the smoothing and the differences before them keep exact results.
  Every \<^verbatim>\<open>raise\<close> of the source and every exception of a library call is a value
  of the type \<open>error\<close>, returned as \<open>Inl\<close>.
\<close>

datatype error =
    MissingFileError
  | FileNotLoadedError
  | MissingDataError
  | ValueError
  | IndexError
  | OSError

text \<open>
  A \<^verbatim>\<open>slice(start, stop)\<close>: either bound may be \<^verbatim>\<open>None\<close>. The step is never given
  in this program.
\<close>

type_synonym slice = "int option \<times> int option"

text \<open>
  Python's rule for a slice bound \<open>i\<close> on a sequence of length \<open>n\<close>: a negative bound counts
  from the end, and the result is clamped into \<open>0..n\<close>.
\<close>

definition clamp_index :: "nat \<Rightarrow> int \<Rightarrow> nat" where
  "clamp_index n i = (if i < 0 then nat (max 0 (int n + i)) else min n (nat i))"

definition py_slice :: "'a list \<Rightarrow> slice \<Rightarrow> 'a list" where
  "py_slice xs b =
     (let n = length xs;
          lo = (case fst b of None \<Rightarrow> 0 | Some i \<Rightarrow> clamp_index n i);
          hi = (case snd b of None \<Rightarrow> n | Some j \<Rightarrow> clamp_index n j)
      in take (hi - lo) (drop lo xs))"

section \<open>utils.py\<close>

text \<open>\<^verbatim>\<open>sections(array, bounds)\<close>: one copy of \<^verbatim>\<open>array[bound]\<close> per bound.\<close>

definition sections :: "'a list \<Rightarrow> slice list \<Rightarrow> 'a list list" where
  "sections array bounds = map (py_slice array) bounds"

text \<open>\<^verbatim>\<open>to_slices(l1, l2)\<close>: \<^verbatim>\<open>zip\<close> stops at the shorter list.\<close>

definition to_slices :: "int option list \<Rightarrow> int option list \<Rightarrow> slice list" where
  "to_slices l1 l2 = map (\<lambda>x. (fst x, snd x)) (zip l1 l2)"

text \<open>
  \<^verbatim>\<open>normalize_len(arr1, arr2)\<close>: the longer array is cut by the slice
  \<^verbatim>\<open>[:len2 - len1]\<close> (or \<^verbatim>\<open>[:len1 - len2]\<close>), whose stop is negative.
\<close>

definition normalize_len :: "'a list \<Rightarrow> 'b list \<Rightarrow> 'a list \<times> 'b list" where
  "normalize_len arr1 arr2 =
     (let len1 = int (length arr1); len2 = int (length arr2)
      in if len1 > len2 then (py_slice arr1 (None, Some (len2 - len1)), arr2)
         else if len1 < len2 then (arr1, py_slice arr2 (None, Some (len1 - len2)))
         else (arr1, arr2))"

text \<open>\<^verbatim>\<open>flatten(it)\<close>: extends one result list by every part, in order.\<close>

fun flatten_acc :: "'a list \<Rightarrow> 'a list list \<Rightarrow> 'a list" where
  "flatten_acc result [] = result"
| "flatten_acc result (part # it) = flatten_acc (result @ part) it"

definition flatten :: "'a list list \<Rightarrow> 'a list" where
  "flatten it = flatten_acc [] it"

text \<open>
  \<^verbatim>\<open>moving_average(arr, window)\<close> is
  \<^verbatim>\<open>np.convolve(arr, np.ones(window), 'valid') / window\<close>. numpy refuses a negative
  shape for \<^verbatim>\<open>np.ones\<close> and an empty operand for \<^verbatim>\<open>np.convolve\<close>, and swaps
  the operands when the second is the longer one. In mode \<^verbatim>\<open>valid\<close> the result has
  one entry per position where the shorter operand, reversed, lies wholly inside the longer.
\<close>

definition bind_err :: "error + 'a \<Rightarrow> ('a \<Rightarrow> error + 'b) \<Rightarrow> error + 'b" where
  "bind_err m f = (case m of Inl e \<Rightarrow> Inl e | Inr x \<Rightarrow> f x)"

definition np_ones :: "int \<Rightarrow> error + real list" where
  "np_ones n = (if n < 0 then Inl ValueError else Inr (replicate (nat n) 1))"

definition convolve_valid :: "real list \<Rightarrow> real list \<Rightarrow> error + real list" where
  "convolve_valid a v =
     (if a = [] \<or> v = [] then Inl ValueError
      else let long = (if length v > length a then v else a);
               short = (if length v > length a then a else v);
               m = length short
           in Inr (map (\<lambda>k. sum_list (map (\<lambda>j. long ! (k + j) * short ! (m - 1 - j)) [0..<m]))
                       [0..<length long - m + 1]))"

definition moving_average :: "real list \<Rightarrow> int \<Rightarrow> error + real list" where
  "moving_average arr window =
     bind_err (np_ones window) (\<lambda>ones.
     bind_err (convolve_valid arr ones) (\<lambda>c.
     Inr (map (\<lambda>x. x / real_of_int window) c)))"

section \<open>numpy and builtin helpers used by the analysis\<close>

text \<open>\<^verbatim>\<open>np.diff\<close>: the differences of neighbours; empty for fewer than two entries.\<close>

fun np_diff :: "'a::minus list \<Rightarrow> 'a list" where
  "np_diff (x # y # rest) = (y - x) # np_diff (y # rest)"
| "np_diff _ = []"

text \<open>The builtins \<^verbatim>\<open>min\<close> and \<^verbatim>\<open>max\<close> raise ValueError on an empty sequence.\<close>

definition py_min :: "'a::linorder list \<Rightarrow> error + 'a" where
  "py_min xs = (case xs of [] \<Rightarrow> Inl ValueError | x # rest \<Rightarrow> Inr (fold min rest x))"

definition py_max :: "'a::linorder list \<Rightarrow> error + 'a" where
  "py_max xs = (case xs of [] \<Rightarrow> Inl ValueError | x # rest \<Rightarrow> Inr (fold max rest x))"

text \<open>Indexing \<^verbatim>\<open>xs[i]\<close>: a negative index counts from the end; out of range raises.\<close>

definition py_index :: "'a list \<Rightarrow> int \<Rightarrow> error + 'a" where
  "py_index xs i =
     (if i < - int (length xs) \<or> int (length xs) \<le> i then Inl IndexError
      else if i < 0 then Inr (xs ! nat (int (length xs) + i))
      else Inr (xs ! nat i))"

text \<open>
  The scientific library calls whose code is not part of this repository are parameters of
  the model: \<^verbatim>\<open>scipy.signal.find_peaks(x, prominence, distance)\<close>,
  \<^verbatim>\<open>scipy.signal.savgol_filter(x, window_length, polyorder)\<close> and
  \<^verbatim>\<open>np.percentile(a, q)\<close>. Each may raise.
\<close>

record extlib =
  find_peaks :: "real list \<Rightarrow> real \<Rightarrow> int option \<Rightarrow> error + int list"
  savgol_filter :: "real list \<Rightarrow> nat \<Rightarrow> nat \<Rightarrow> error + real list"
  percentile :: "real list \<Rightarrow> real \<Rightarrow> error + real"

section \<open>analyzer.py: smoothing and landmark detection\<close>

text \<open>Line 167: \<^verbatim>\<open>time[:-moving_avg_window + 1]\<close>.\<close>

definition truncate_time :: "real list \<Rightarrow> int \<Rightarrow> real list" where
  "truncate_time time moving_avg_window = py_slice time (None, Some (- moving_avg_window + 1))"

text \<open>
  Lines 174 to 177. The arguments of the second \<^verbatim>\<open>find_peaks\<close> call are evaluated
  before the call, so \<^verbatim>\<open>min(np.diff(peaks))\<close> raises first when there are fewer than
  two peaks. \<^verbatim>\<open>//\<close> is floor division, as \<open>div\<close> on \<^typ>\<open>int\<close>.
\<close>

definition detect_landmarks :: "extlib \<Rightarrow> real list \<Rightarrow> real \<Rightarrow> error + (int list \<times> int list)" where
  "detect_landmarks lib moving_avg_vals peak_finding_sensitivity =
     bind_err (py_max moving_avg_vals) (\<lambda>mx.
     bind_err (py_min moving_avg_vals) (\<lambda>mn.
     let prominence = (mx - mn) * peak_finding_sensitivity in
     bind_err (find_peaks lib moving_avg_vals prominence None) (\<lambda>peaks.
     bind_err (py_min (np_diff peaks)) (\<lambda>spacing.
     bind_err (find_peaks lib (map (\<lambda>x. - 1 * x) moving_avg_vals) prominence (Some (spacing div 2)))
       (\<lambda>valleys. Inr (peaks, valleys))))))"

section \<open>float64 arithmetic\<close>

text \<open>
  numpy's \<^verbatim>\<open>float64\<close> and Python's \<^verbatim>\<open>float\<close> are IEEE 754 binary64 numbers, and
  every operation returns its exact result rounded to the nearest of them, ties to the even
  mantissa. \<open>up\<close> and \<open>down\<close> count the halvings and doublings that bring a positive number
  into \<open>[1, 2)\<close>, which gives its binary exponent \<open>ilog2\<close>.
\<close>

function up :: "real \<Rightarrow> int" where
  "up x = (if x \<ge> 2 then up (x / 2) + 1 else 0)"
  by pat_completeness auto
termination
proof (relation "measure (\<lambda>x. nat \<lfloor>x\<rfloor>)")
  show "wf (measure (\<lambda>x. nat \<lfloor>x\<rfloor>))" by simp
next
  fix x :: real
  assume "2 \<le> x"
  then have "x / 2 \<le> x - 1" by simp
  then have "\<lfloor>x / 2\<rfloor> \<le> \<lfloor>x - 1\<rfloor>" by (rule floor_mono)
  moreover from \<open>2 \<le> x\<close> have "0 < \<lfloor>x\<rfloor>" by simp
  ultimately show "(x / 2, x) \<in> measure (\<lambda>x. nat \<lfloor>x\<rfloor>)" by simp
qed

function down :: "real \<Rightarrow> int" where
  "down x = (if 0 < x \<and> x < 1 then down (x * 2) - 1 else 0)"
  by pat_completeness auto
termination
proof (relation "measure (\<lambda>x. nat \<lceil>1 / x\<rceil>)")
  show "wf (measure (\<lambda>x. nat \<lceil>1 / x\<rceil>))" by simp
next
  fix x :: real
  assume a: "0 < x \<and> x < 1"
  then have y: "1 < 1 / x" by simp
  have "\<lceil>1 / (x * 2)\<rceil> < \<lceil>1 / x\<rceil>"
  proof (cases "1 / x \<le> 2")
    case True
    then have "1 / (x * 2) \<le> 1" by simp
    then have "\<lceil>1 / (x * 2)\<rceil> \<le> 1" by (simp add: ceiling_le_one)
    moreover from y have "2 \<le> \<lceil>1 / x\<rceil>" by linarith
    ultimately show ?thesis by linarith
  next
    case False
    then have "1 / (x * 2) \<le> 1 / x - 1" by (simp add: field_simps)
    then have "\<lceil>1 / (x * 2)\<rceil> \<le> \<lceil>1 / x - 1\<rceil>" by (rule ceiling_mono)
    then show ?thesis by simp
  qed
  moreover from y have "0 < \<lceil>1 / x\<rceil>" by linarith
  ultimately show "(x * 2, x) \<in> measure (\<lambda>x. nat \<lceil>1 / x\<rceil>)" by simp
qed

declare up.simps [simp del] down.simps [simp del]

definition ilog2 :: "real \<Rightarrow> int" where
  "ilog2 x = (if x \<ge> 1 then up x else down x)"

definition pow2 :: "int \<Rightarrow> real" where
  "pow2 e = (if e \<ge> 0 then 2 ^ nat e else 1 / 2 ^ nat (- e))"

text \<open>The nearest integer, a tie going to the even one.\<close>

definition rne :: "real \<Rightarrow> int" where
  "rne q = (let f = \<lfloor>q\<rfloor>; r = q - of_int f
            in if r < 1 / 2 then f else if r > 1 / 2 then f + 1
               else if even f then f else f + 1)"

text \<open>
  The mantissa has 53 bits, so the last of them has the exponent \<open>ilog2 \<bar>x\<bar> - 52\<close>, and
  never less than \<open>-1074\<close>, the exponent of the smallest subnormal number. \<open>round_real\<close> rounds
  to a multiple of that power of two; it is the float64 result of an operation whose exact
  result is \<open>x\<close>, as long as it does not overflow, and the value of a literal written \<open>x\<close>.
  The two zeros of float64 are not told apart.
\<close>

definition qexp :: "real \<Rightarrow> int" where
  "qexp x = max (ilog2 \<bar>x\<bar> - 52) (- 1074)"

definition round_real :: "real \<Rightarrow> real" where
  "round_real x = (if x = 0 then 0 else of_int (rne (x / pow2 (qexp x))) * pow2 (qexp x))"

text \<open>
  The values of a float64: the finite ones, the two infinities and NaN. A rounded result of
  magnitude \<open>2 ^ 1024\<close> or more overflows to an infinity. numpy does not raise on an overflow
  or on a division by zero: it prints a warning and returns the infinity, or NaN for
  \<open>0 / 0\<close>.
\<close>

datatype f64 = Fin real | PInf | NInf | NaN

definition round64 :: "real \<Rightarrow> f64" where
  "round64 x = (let r = round_real x
                in if r \<ge> 2 ^ 1024 then PInf else if r \<le> - (2 ^ 1024) then NInf else Fin r)"

fun f64_neg :: "f64 \<Rightarrow> f64" where
  "f64_neg (Fin a) = Fin (- a)"
| "f64_neg PInf = NInf"
| "f64_neg NInf = PInf"
| "f64_neg NaN = NaN"

fun f64_add :: "f64 \<Rightarrow> f64 \<Rightarrow> f64" where
  "f64_add (Fin a) (Fin b) = round64 (a + b)"
| "f64_add NaN _ = NaN"
| "f64_add _ NaN = NaN"
| "f64_add PInf NInf = NaN"
| "f64_add NInf PInf = NaN"
| "f64_add PInf _ = PInf"
| "f64_add NInf _ = NInf"
| "f64_add _ PInf = PInf"
| "f64_add _ NInf = NInf"

definition f64_sub :: "f64 \<Rightarrow> f64 \<Rightarrow> f64" where
  "f64_sub a b = f64_add a (f64_neg b)"

text \<open>
  The sign of a value: 1, 0 or -1. NaN has none; the operations below settle NaN before
  they ask for a sign.
\<close>

fun f64_sign :: "f64 \<Rightarrow> int" where
  "f64_sign (Fin a) = (if a > 0 then 1 else if a < 0 then - 1 else 0)"
| "f64_sign PInf = 1"
| "f64_sign NInf = - 1"
| "f64_sign NaN = 0"

definition f64_inf :: "int \<Rightarrow> f64" where
  "f64_inf sg = (if sg > 0 then PInf else if sg < 0 then NInf else NaN)"

fun f64_mul :: "f64 \<Rightarrow> f64 \<Rightarrow> f64" where
  "f64_mul (Fin a) (Fin b) = round64 (a * b)"
| "f64_mul NaN _ = NaN"
| "f64_mul _ NaN = NaN"
| "f64_mul a b = f64_inf (f64_sign a * f64_sign b)"

fun f64_div :: "f64 \<Rightarrow> f64 \<Rightarrow> f64" where
  "f64_div (Fin a) (Fin b) = (if b = 0 then f64_inf (f64_sign (Fin a)) else round64 (a / b))"
| "f64_div NaN _ = NaN"
| "f64_div _ NaN = NaN"
| "f64_div (Fin a) _ = Fin 0"
| "f64_div a (Fin b) = f64_inf (f64_sign a * (if b < 0 then - 1 else 1))"
| "f64_div _ _ = NaN"

text \<open>\<^verbatim>\<open>x > 0\<close>: false for NaN.\<close>

fun f64_pos :: "f64 \<Rightarrow> bool" where
  "f64_pos (Fin a) = (a > 0)"
| "f64_pos PInf = True"
| "f64_pos _ = False"

fun f64_finite :: "f64 \<Rightarrow> bool" where
  "f64_finite (Fin a) = True"
| "f64_finite _ = False"

section \<open>analyzer.py: the pressure-threshold search\<close>

text \<open>
  Lines 223 to 235, the scan of one section: \<open>dx\<close> and \<open>dx2\<close> are walked together
  (\<^verbatim>\<open>zip\<close>), \<open>abs_idx\<close> is the index in the whole array, \<open>hits\<close> grows at its end.
  The literal \<^verbatim>\<open>0.01\<close> is the float64 nearest to it.
\<close>

fun scan :: "real \<Rightarrow> (real \<times> real) list \<Rightarrow> int \<Rightarrow> bool \<Rightarrow> int list \<Rightarrow> bool \<times> int list" where
  "scan pthresh [] abs_idx allow_hit hits = (allow_hit, hits)"
| "scan pthresh ((slope, slope2) # rest) abs_idx allow_hit hits =
     (let allow_hit1 = (if slope < round_real (1 / 100) then True else allow_hit)
      in if slope2 \<ge> pthresh \<and> slope > 0 \<and> allow_hit1
         then scan pthresh rest (abs_idx + 1) False (hits @ [abs_idx])
         else scan pthresh rest (abs_idx + 1) allow_hit1 hits)"

text \<open>\<^verbatim>\<open>bound.start if bound.start is not None else 0\<close>.\<close>

definition start_or_zero :: "slice \<Rightarrow> int" where
  "start_or_zero bound = (case fst bound of None \<Rightarrow> 0 | Some s \<Rightarrow> s)"

text \<open>
  Lines 218 to 242, the relaxation loop
  \<^verbatim>\<open>while len(hits) == 0 and pthresh > 0\<close>. The state is the one the source
  keeps: \<open>pthresh\<close>, \<open>allow_hit\<close>, \<open>hits\<close> and the entry \<open>slope_thresholds[i]\<close>
  (\<open>recorded\<close>), which each pass overwrites with the threshold it used. \<open>passes\<close> counts the
  executions of the loop body; the source has no such counter, it is there to state how
  often the body runs.

  \<^verbatim>\<open>pthresh -= 0.001\<close> is a float64 subtraction of the float64 nearest to \<open>0.001\<close>. A large
  threshold absorbs it, and then the loop does not end: the result is \<open>None\<close> when the loop
  runs forever, and \<open>Some\<close> of the final state when it returns.
\<close>

record relax_state =
  pthresh :: real
  allow_hit :: bool
  hits :: "int list"
  recorded :: real
  passes :: nat

partial_function (option) relax ::
  "(real \<times> real) list \<Rightarrow> int \<Rightarrow> relax_state \<Rightarrow> relax_state option" where
  "relax sec start st =
     (if length (hits st) = 0 \<and> pthresh st > 0
      then relax sec start
             \<lparr>pthresh = round_real (pthresh st - round_real (1 / 1000)),
              allow_hit = fst (scan (pthresh st) sec start (allow_hit st) (hits st)),
              hits = snd (scan (pthresh st) sec start (allow_hit st) (hits st)),
              recorded = pthresh st, passes = Suc (passes st)\<rparr>
      else Some st)"

text \<open>
  Lines 215 to 249 for one entry of \<open>zipped_data\<close>: the initial state, the loop, and the
  index appended to \<open>pthresh_indexes\<close> (\<^verbatim>\<open>hits[-1]\<close>, or the start of the bound).
\<close>

definition relax_init :: "real \<Rightarrow> relax_state" where
  "relax_init p = \<lparr>pthresh = p, allow_hit = True, hits = [], recorded = p, passes = 0\<rparr>"

definition search_bound ::
  "real list \<Rightarrow> real list \<Rightarrow> real \<Rightarrow> slice \<Rightarrow> relax_state option" where
  "search_bound dx dx2 p bound = relax (zip dx dx2) (start_or_zero bound) (relax_init p)"

definition pthresh_index :: "relax_state \<Rightarrow> slice \<Rightarrow> int" where
  "pthresh_index st bound =
     (if length (hits st) > 0 then last (hits st) else start_or_zero bound)"

text \<open>
  Lines 213 to 249, the loop over \<open>zipped_data\<close> with its counter \<open>i\<close>: one entry is
  \<open>(dx, dx2, pthresh, peak, bound)\<close>. Each turn stores the threshold last used at
  \<open>slope_thresholds[i]\<close> and appends one index to \<open>pthresh_indexes\<close>. The loop does not
  return when the search of an entry does not.
\<close>

type_synonym zipped_entry = "real list \<times> real list \<times> real \<times> int \<times> slice"

fun threshold_loop ::
  "nat \<Rightarrow> zipped_entry list \<Rightarrow> real list \<Rightarrow> int list \<Rightarrow> (real list \<times> int list) option" where
  "threshold_loop i [] slope_thresholds pthresh_indexes = Some (slope_thresholds, pthresh_indexes)"
| "threshold_loop i ((dx, dx2, p, peak, bound) # rest) slope_thresholds pthresh_indexes =
     (case search_bound dx dx2 p bound of
        None \<Rightarrow> None
      | Some st \<Rightarrow>
          threshold_loop (Suc i) rest
            (slope_thresholds[i := recorded st])
            (pthresh_indexes @ [pthresh_index st bound]))"

text \<open>Lines 209 to 211: the bounds from a baseline to the next peak, and \<open>zipped_data\<close>.\<close>

definition baseline_peak_bounds :: "int list \<Rightarrow> int list \<Rightarrow> slice list" where
  "baseline_peak_bounds valleys peaks = to_slices (None # map Some valleys) (map Some peaks)"

definition zipped_data ::
  "real list \<Rightarrow> real list \<Rightarrow> real list \<Rightarrow> int list \<Rightarrow> int list \<Rightarrow> zipped_entry list" where
  "zipped_data slopes slopes2 slope_thresholds peaks valleys =
     (let bounds = baseline_peak_bounds valleys peaks
      in zip (sections slopes bounds)
           (zip (sections slopes2 bounds) (zip slope_thresholds (zip peaks bounds))))"

section \<open>analyzer.py: volume-empty points\<close>

text \<open>
  Lines 258 to 264, the inner loop over one section: the first value below the limit
  appends the running index \<open>i\<close> and ends the loop; \<open>None\<close> when no value is below it.
\<close>

fun first_below :: "real \<Rightarrow> int \<Rightarrow> real list \<Rightarrow> int option" where
  "first_below limit i [] = None"
| "first_below limit i (val # rest) =
     (if val < limit then Some i else first_below limit (i + 1) rest)"

text \<open>Lines 255 to 264: an empty section is skipped (\<^verbatim>\<open>continue\<close>).\<close>

fun volume_empty_loop :: "real \<Rightarrow> (int \<times> real list) list \<Rightarrow> int list \<Rightarrow> int list" where
  "volume_empty_loop volume_empty_percent [] vethresh_indexes = vethresh_indexes"
| "volume_empty_loop volume_empty_percent ((i, section) # rest) vethresh_indexes =
     (if length section = 0 then volume_empty_loop volume_empty_percent rest vethresh_indexes
      else let diff = hd section - last section;
               limit = ((volume_empty_percent / 100) * diff) + last section
           in case first_below limit i section of
                None \<Rightarrow> volume_empty_loop volume_empty_percent rest vethresh_indexes
              | Some k \<Rightarrow> volume_empty_loop volume_empty_percent rest (vethresh_indexes @ [k]))"

section \<open>analyzer.py: volume reconstruction\<close>

text \<open>
  Lines 278 to 281: every voiding section extends \<open>voiding_sections\<close> and appends its span
  \<^verbatim>\<open>section[-1] - section[0]\<close>, a float64 difference, which raises IndexError on an
  empty section.
\<close>

fun voiding_loop ::
  "real list list \<Rightarrow> real list \<Rightarrow> f64 list \<Rightarrow> error + (real list \<times> f64 list)" where
  "voiding_loop [] voiding_sections volume_down_slopes = Inr (voiding_sections, volume_down_slopes)"
| "voiding_loop (section # rest) voiding_sections volume_down_slopes =
     (if section = [] then Inl IndexError
      else voiding_loop rest (voiding_sections @ section)
             (volume_down_slopes @ [f64_sub (Fin (last section)) (Fin (hd section))]))"

text \<open>
  The state of the forward pass, lines 283 to 298. What the pass reads and never changes:
  the two sets of time values (kept as the lists they are built from), the spans, the
  valleys, \<open>flow_volume\<close> and \<open>time_step\<close>.
\<close>

record vol_state =
  curr_vol :: f64
  max_vol :: f64
  slope_index :: nat
  volume :: "f64 list"

record vol_env =
  filling_sections :: "real list"
  voiding_sections :: "real list"
  volume_down_slopes :: "f64 list"
  valleys :: "int list"
  flow_volume :: real
  time_step :: f64

definition vol_init :: vol_state where
  "vol_init = \<lparr>curr_vol = Fin 0, max_vol = Fin 0, slope_index = 0, volume = []\<rparr>"

text \<open>
  Lines 289 to 293, the branch on the time value \<open>t\<close>, in float64 arithmetic:
  \<^verbatim>\<open>flow_volume / 60 * time_step\<close> is a quotient, then a product, and
  \<^verbatim>\<open>max_vol / volume_down_slopes[slope_index] * time_step\<close> likewise. Reading
  \<^verbatim>\<open>volume_down_slopes[slope_index]\<close> past the end raises IndexError; the division
  itself never raises.
\<close>

definition vol_update :: "vol_env \<Rightarrow> vol_state \<Rightarrow> real \<Rightarrow> error + vol_state" where
  "vol_update env st t =
     (if t \<in> set (filling_sections env)
      then (let c = f64_add (curr_vol st)
                      (f64_mul (f64_div (Fin (flow_volume env)) (Fin 60)) (time_step env))
            in Inr (st\<lparr>curr_vol := c, max_vol := c\<rparr>))
      else if t \<in> set (voiding_sections env) \<and> f64_pos (curr_vol st)
      then (if slope_index st < length (volume_down_slopes env)
            then Inr (st\<lparr>curr_vol :=
                   f64_sub (curr_vol st)
                     (f64_mul (f64_div (max_vol st) (volume_down_slopes env ! slope_index st))
                        (time_step env))\<rparr>)
            else Inl IndexError)
      else Inr st)"

text \<open>Lines 287 to 298, one turn of the loop for the sample \<open>i\<close> with time \<open>t\<close>.\<close>

definition vol_step :: "vol_env \<Rightarrow> vol_state \<Rightarrow> nat \<times> real \<Rightarrow> error + vol_state" where
  "vol_step env st it =
     bind_err (vol_update env st (snd it)) (\<lambda>st1.
     let st2 = (if int (fst it) \<in> set (valleys env)
                then st1\<lparr>slope_index := slope_index st1 + 1\<rparr> else st1)
     in Inr (st2\<lparr>volume := volume st2 @ [curr_vol st2]\<rparr>))"

fun vol_loop :: "vol_env \<Rightarrow> vol_state \<Rightarrow> (nat \<times> real) list \<Rightarrow> error + vol_state" where
  "vol_loop env st [] = Inr st"
| "vol_loop env st (it # rest) = bind_err (vol_step env st it) (\<lambda>st'. vol_loop env st' rest)"

text \<open>The pass over \<^verbatim>\<open>enumerate(time)\<close> from the initial state.\<close>

definition volume_pass :: "vol_env \<Rightarrow> real list \<Rightarrow> error + vol_state" where
  "volume_pass env time = vol_loop env vol_init (enumerate 0 time)"

text \<open>
  Lines 270 to 281: the alignment of peaks and thresholds, the filling windows
  \<open>[threshold, peak + 1)\<close> and the voiding windows \<open>[peak, empty + 1)\<close>, both over \<open>time\<close>.
\<close>

definition build_vol_env ::
  "real list \<Rightarrow> int list \<Rightarrow> int list \<Rightarrow> int list \<Rightarrow> int list \<Rightarrow> real \<Rightarrow> f64 \<Rightarrow> error + vol_env" where
  "build_vol_env time peaks pthresh_indexes vethresh_indexes valleys_arr flow dt =
     (let aligned = normalize_len peaks pthresh_indexes;
          peaks' = fst aligned;
          pthresh_indexes' = snd aligned;
          filling = flatten (sections time
                      (to_slices (map Some pthresh_indexes') (map (\<lambda>p. Some (p + 1)) peaks')))
      in bind_err
           (voiding_loop
              (sections time (to_slices (map Some peaks') (map (\<lambda>v. Some (v + 1)) vethresh_indexes)))
              [] [])
           (\<lambda>vs. Inr \<lparr>filling_sections = filling, voiding_sections = fst vs,
                       volume_down_slopes = snd vs, valleys = valleys_arr,
                       flow_volume = flow, time_step = dt\<rparr>))"

section \<open>data.py and the analysis as a whole\<close>

record cystometry_data =
  time :: "real list"
  values' :: "real list"
  derivative2 :: "real list"
  moving_avg_vals :: "real list"
  peaks :: "int list"
  baselines :: "int list"
  pressure_threshold_idx :: "int list"
  volume_empty_idx :: "int list"
  volume_curve :: "f64 list"
  baseline_bounds :: "slice list"
  slope_thresholds :: "real list"

text \<open>The keyword arguments of \<^verbatim>\<open>analyze\<close>.\<close>

record config =
  moving_avg_window :: int
  peak_finding_sensitivity :: real
  pressure_threshold_percentile :: real
  volume_empty_percent :: real
  flow_volume_rate :: real

definition default_config :: config where
  "default_config =
     \<lparr>moving_avg_window = 10, peak_finding_sensitivity = 333 / 1000,
      pressure_threshold_percentile = 91, volume_empty_percent = 10, flow_volume_rate = 1\<rparr>"

text \<open>Lines 200 to 206: one percentile per section; the first failing call raises.\<close>

fun percentiles :: "extlib \<Rightarrow> real \<Rightarrow> real list list \<Rightarrow> real list \<Rightarrow> error + real list" where
  "percentiles lib q [] thresholds = Inr thresholds"
| "percentiles lib q (section # rest) thresholds =
     bind_err (percentile lib section q) (\<lambda>p. percentiles lib q rest (thresholds @ [p]))"

text \<open>
  The analysis as a whole either raises, or returns its result, or does not return at all
  (the threshold search): \<open>Some (Inl e)\<close>, \<open>Some (Inr d)\<close> or \<open>None\<close>. \<open>bind_run\<close> passes
  the value of a step that has returned without raising to the rest of the computation.
\<close>

definition bind_run ::
  "(error + 'a) option \<Rightarrow> ('a \<Rightarrow> (error + 'b) option) \<Rightarrow> (error + 'b) option" where
  "bind_run m f = (case m of None \<Rightarrow> None | Some (Inl e) \<Rightarrow> Some (Inl e) | Some (Inr x) \<Rightarrow> f x)"

text \<open>
  Lines 163 to 314: everything \<^verbatim>\<open>analyze\<close> computes from the raw data, on local
  variables only, up to the value it stores at the end. \<^verbatim>\<open>time[1] - time[0]\<close> reads a
  numpy array and raises IndexError when it has fewer than two entries.
\<close>

definition analysis ::
  "extlib \<Rightarrow> config \<Rightarrow> real list \<times> real list \<Rightarrow> (error + cystometry_data) option" where
  "analysis lib cfg raw =
     (let time0 = fst raw; actual_vals = snd raw in
      bind_run (Some (moving_average actual_vals (moving_avg_window cfg))) (\<lambda>mavg.
      let time1 = truncate_time time0 (moving_avg_window cfg) in
      bind_run (Some (py_index time1 1)) (\<lambda>t1.
      bind_run (Some (py_index time1 0)) (\<lambda>t0.
      let dt = f64_sub (Fin t1) (Fin t0) in
      bind_run (Some (detect_landmarks lib mavg (peak_finding_sensitivity cfg))) (\<lambda>pv.
      let pks = fst pv; vls = snd pv;
          slopes = 0 # np_diff mavg;
          slopes2_raw = 0 # np_diff slopes in
      bind_run (Some (savgol_filter lib slopes2_raw 9 4)) (\<lambda>slopes2.
      let bbounds = to_slices (None # map Some vls) (map Some vls @ [None]) in
      bind_run (Some (percentiles lib (pressure_threshold_percentile cfg) (sections slopes2 bbounds) []))
        (\<lambda>thresholds.
      bind_run (map_option Inr
                  (threshold_loop 0 (zipped_data slopes slopes2 thresholds pks vls) thresholds []))
        (\<lambda>found.
      let vethresh = volume_empty_loop (volume_empty_percent cfg)
                       (zip pks (sections mavg
                          (to_slices (map Some pks) (map (\<lambda>v. Some (v + 1)) vls)))) [] in
      bind_run (Some (build_vol_env time1 pks (snd found) vethresh vls (flow_volume_rate cfg) dt))
        (\<lambda>env.
      bind_run (Some (volume_pass env time1)) (\<lambda>final.
      Some (Inr \<lparr>time = time1, values' = actual_vals, derivative2 = slopes2,
           moving_avg_vals = mavg,
           peaks = fst (normalize_len pks (snd found)),
           baselines = vls,
           pressure_threshold_idx = snd (normalize_len pks (snd found)),
           volume_empty_idx = vethresh,
           volume_curve = volume final,
           baseline_bounds = bbounds,
           slope_thresholds = fst found\<rparr>)))))))))))"

section \<open>analyzer.py: the session object\<close>

text \<open>
  The three fields of a \<^verbatim>\<open>CystometryAnalyzer\<close>. A method returns what the caller sees
  (the object itself, a value, or a raised error) together with the object's fields after
  the call, so that a method which had changed a field before raising would show it.
  \<open>analyze\<close> may not return at all: the result of a call is \<open>None\<close> then.
\<close>

record session =
  data_path :: "string option"
  data :: "cystometry_data option"
  raw_data :: "(real list \<times> real list) option"

datatype outcome =
    Raised error
  | Self
  | Data "cystometry_data option"
  | Flag bool
  | Path "string option"

definition new_session :: "string option \<Rightarrow> session" where
  "new_session path = \<lparr>data_path = path, data = None, raw_data = None\<rparr>"

definition has_file :: "session \<Rightarrow> bool" where
  "has_file s = (data_path s \<noteq> None \<and> data_path s \<noteq> Some [])"

definition has_data :: "session \<Rightarrow> bool" where
  "has_data s = (data s \<noteq> None)"

definition is_loaded :: "session \<Rightarrow> bool" where
  "is_loaded s = (raw_data s \<noteq> None)"

definition get_data :: "session \<Rightarrow> outcome \<times> session" where
  "get_data s = (Data (data s), s)"

definition get_file_path :: "session \<Rightarrow> outcome \<times> session" where
  "get_file_path s = (Path (data_path s), s)"

definition set_data :: "session \<Rightarrow> real list \<Rightarrow> real list \<Rightarrow> outcome \<times> session" where
  "set_data s time_data pressure_data = (Self, s\<lparr>raw_data := Some (time_data, pressure_data)\<rparr>)"

definition set_file :: "session \<Rightarrow> string \<Rightarrow> outcome \<times> session" where
  "set_file s path = (Self, s\<lparr>data := None, raw_data := None, data_path := Some path\<rparr>)"

text \<open>
  What lies outside the repository: the scientific library, opening and reading a delimited
  file (\<^verbatim>\<open>open\<close> and \<^verbatim>\<open>csv.reader\<close>: the rows of the file, or the error raised),
  the builtin \<^verbatim>\<open>float\<close> on a string (\<open>None\<close> when it raises ValueError), and the
  effects of \<^verbatim>\<open>CystometryData.visualize\<close> and \<^verbatim>\<open>CystometryData.export\<close> (the error
  raised, if any; neither assigns a field of the session).
\<close>

record world =
  lib :: extlib
  open_csv :: "string \<Rightarrow> string \<Rightarrow> error + string list list"
  py_float :: "string \<Rightarrow> real option"
  visualize :: "cystometry_data \<Rightarrow> error option"
  export :: "cystometry_data \<Rightarrow> string \<Rightarrow> string \<Rightarrow> error option"

definition float_of :: "world \<Rightarrow> string \<Rightarrow> error + real" where
  "float_of w str = (case py_float w str of None \<Rightarrow> Inl ValueError | Some x \<Rightarrow> Inr x)"

text \<open>
  Lines 130 to 134: the rows are read into the local lists \<open>vals\<close> and \<open>time\<close>; the
  pressure column is converted first.
\<close>

fun read_rows ::
  "world \<Rightarrow> int \<Rightarrow> int \<Rightarrow> int \<Rightarrow> (nat \<times> string list) list \<Rightarrow> real list \<Rightarrow> real list
   \<Rightarrow> error + (real list \<times> real list)" where
  "read_rows w time_col pressure_col skip_rows [] vals tm = Inr (tm, vals)"
| "read_rows w time_col pressure_col skip_rows ((line_num, row) # rest) vals tm =
     (if int line_num < skip_rows then read_rows w time_col pressure_col skip_rows rest vals tm
      else bind_err (py_index row pressure_col) (\<lambda>pcell.
           bind_err (float_of w pcell) (\<lambda>p.
           bind_err (py_index row time_col) (\<lambda>tcell.
           bind_err (float_of w tcell) (\<lambda>t.
           read_rows w time_col pressure_col skip_rows rest (vals @ [p]) (tm @ [t]))))))"

text \<open>Lines 120 to 138. The only assignment to a field is the last statement.\<close>

definition load :: "world \<Rightarrow> session \<Rightarrow> int \<Rightarrow> int \<Rightarrow> int \<Rightarrow> string \<Rightarrow> outcome \<times> session" where
  "load w s time_col pressure_col skip_rows delim =
     (if \<not> has_file s then (Raised MissingFileError, s)
      else case data_path s of
             None \<Rightarrow> (Raised MissingFileError, s)
           | Some path \<Rightarrow>
              (case bind_err (open_csv w path delim)
                      (\<lambda>rows. read_rows w time_col pressure_col skip_rows (enumerate 0 rows) [] []) of
                 Inl e \<Rightarrow> (Raised e, s)
               | Inr tv \<Rightarrow> (Self, s\<lparr>raw_data := Some tv\<rparr>)))"

text \<open>Lines 159 to 316. The only assignment to a field is \<^verbatim>\<open>self._data = ...\<close> at the end.\<close>

definition analyze :: "world \<Rightarrow> session \<Rightarrow> config \<Rightarrow> (outcome \<times> session) option" where
  "analyze w s cfg =
     (if \<not> is_loaded s then Some (Raised FileNotLoadedError, s)
      else case raw_data s of
             None \<Rightarrow> Some (Raised FileNotLoadedError, s)
           | Some raw \<Rightarrow>
              (case analysis (lib w) cfg raw of
                 None \<Rightarrow> None
               | Some (Inl e) \<Rightarrow> Some (Raised e, s)
               | Some (Inr d) \<Rightarrow> Some (Self, s\<lparr>data := Some d\<rparr>)))"

text \<open>Lines 331 to 337 and 352 to 358.\<close>

definition visualize_data :: "world \<Rightarrow> session \<Rightarrow> outcome \<times> session" where
  "visualize_data w s =
     (case data s of
        None \<Rightarrow> (Raised MissingDataError, s)
      | Some d \<Rightarrow> (case visualize w d of Some e \<Rightarrow> (Raised e, s) | None \<Rightarrow> (Self, s)))"

definition export_data :: "world \<Rightarrow> session \<Rightarrow> string \<Rightarrow> string \<Rightarrow> outcome \<times> session" where
  "export_data w s dir_path prefix =
     (case data s of
        None \<Rightarrow> (Raised MissingDataError, s)
      | Some d \<Rightarrow> (case export w d dir_path prefix of Some e \<Rightarrow> (Raised e, s) | None \<Rightarrow> (Self, s)))"

text \<open>The methods of the session as one type of calls, and what a call does.\<close>

datatype call =
    SetData "real list" "real list"
  | SetFile string
  | Load int int int string
  | Analyze config
  | VisualizeData
  | ExportData string string
  | HasFile
  | HasData
  | IsLoaded
  | GetData
  | GetFilePath

fun perform :: "world \<Rightarrow> session \<Rightarrow> call \<Rightarrow> (outcome \<times> session) option" where
  "perform w s (SetData time_data pressure_data) = Some (set_data s time_data pressure_data)"
| "perform w s (SetFile path) = Some (set_file s path)"
| "perform w s (Load time_col pressure_col skip_rows delim) =
     Some (load w s time_col pressure_col skip_rows delim)"
| "perform w s (Analyze cfg) = analyze w s cfg"
| "perform w s VisualizeData = Some (visualize_data w s)"
| "perform w s (ExportData dir_path prefix) = Some (export_data w s dir_path prefix)"
| "perform w s HasFile = Some (Flag (has_file s), s)"
| "perform w s HasData = Some (Flag (has_data s), s)"
| "perform w s IsLoaded = Some (Flag (is_loaded s), s)"
| "perform w s GetData = Some (get_data s)"
| "perform w s GetFilePath = Some (get_file_path s)"

section \<open>Facts about slicing\<close>

lemma py_slice_neg_stop:
  assumes "k < 0"
  shows "py_slice xs (None, Some k) = take (nat (int (length xs) + k)) xs"
proof -
  have "nat (max 0 (int (length xs) + k)) = nat (int (length xs) + k)"
    by (simp add: max_def)
  with assms show ?thesis
    by (simp add: py_slice_def clamp_index_def Let_def)
qed

lemma py_slice_length_le: "length (py_slice xs b) \<le> length xs"
  by (simp add: py_slice_def Let_def)

lemma flatten_acc_concat: "flatten_acc acc it = acc @ concat it"
  by (induction it arbitrary: acc) simp_all

lemma flatten_concat: "flatten it = concat it"
  by (simp add: flatten_def flatten_acc_concat)

section \<open>Aligning two arrays\<close>

text \<open>
  C9. For all sequences \<open>a\<close> and \<open>b\<close>, \<open>normalize_len\<close> returns the prefixes of \<open>a\<close> and of \<open>b\<close>
  of length \<open>min (length a) (length b)\<close>: both results have that length, only trailing
  elements are removed, and nothing is inserted or reordered.
\<close>

theorem normalize_len_prefixes:
  "normalize_len a b = (take (min (length a) (length b)) a, take (min (length a) (length b)) b)
   \<and> length (fst (normalize_len a b)) = min (length a) (length b)
   \<and> length (snd (normalize_len a b)) = min (length a) (length b)"
proof -
  let ?m = "min (length a) (length b)"
  have eq: "normalize_len a b = (take ?m a, take ?m b)"
  proof (cases "length a > length b")
    case True
    then have "py_slice a (None, Some (int (length b) - int (length a))) = take (length b) a"
      by (simp add: py_slice_neg_stop)
    with True show ?thesis by (simp add: normalize_len_def Let_def min_def)
  next
    case False
    show ?thesis
    proof (cases "length a < length b")
      case True
      then have "py_slice b (None, Some (int (length a) - int (length b))) = take (length a) b"
        by (simp add: py_slice_neg_stop)
      with True show ?thesis by (simp add: normalize_len_def Let_def min_def)
    next
      case False
      with \<open>\<not> length b < length a\<close> have "length a = length b" by simp
      then show ?thesis by (simp add: normalize_len_def Let_def)
    qed
  qed
  then show ?thesis by simp
qed

theorem normalize_len_prefixes_witness:
  "normalize_len [1, 2, 3 :: int] [True, False] = ([1, 2], [True, False])"
  using normalize_len_prefixes [of "[1, 2, 3 :: int]" "[True, False]"] by simp

section \<open>Smoothing and the time axis\<close>

text \<open>
  For a window between 2 and the number of samples the smoothed series and the cut time axis
  have the same length.
\<close>

lemma moving_average_length:
  assumes "1 \<le> w" and "nat w \<le> length p"
  shows "\<exists>m. moving_average p w = Inr m \<and> length m = length p - nat w + 1"
  using assms
  by (auto simp add: moving_average_def np_ones_def convolve_valid_def bind_err_def Let_def)

lemma truncate_time_length:
  assumes "2 \<le> w" and "nat w \<le> length t"
  shows "truncate_time t w = take (length t - nat w + 1) t"
proof -
  from assms have "nat (int (length t) + (- w + 1)) = length t - nat w + 1" by arith
  with assms(1) show ?thesis by (simp add: truncate_time_def py_slice_neg_stop)
qed

text \<open>
  C3 at the window 1, on three samples. The smoothed series keeps all three values, as
  \<open>len - 1 + 1\<close> says, but the stop of the slice \<^verbatim>\<open>time[:-1 + 1]\<close> is \<open>0\<close>: the time axis
  is cut to the empty array, not to three samples, and the analysis raises IndexError at
  \<^verbatim>\<open>time[1] - time[0]\<close> whatever the library does.
\<close>

theorem window_one_drops_all_times:
  "moving_average [1, 2, 3] 1 = Inr [1, 2, 3]
   \<and> truncate_time [0, 1, 2] 1 = []
   \<and> analysis lb (default_config\<lparr>moving_avg_window := 1\<rparr>) ([0, 1, 2], [1, 2, 3])
       = Some (Inl IndexError)"
  by (simp add: analysis_def moving_average_def np_ones_def convolve_valid_def bind_err_def
      bind_run_def Let_def upt_rec truncate_time_def py_slice_def clamp_index_def py_index_def
      default_config_def)

section \<open>Fewer than two peaks\<close>

lemma np_diff_short: "length xs < 2 \<Longrightarrow> np_diff xs = []"
  by (cases xs rule: np_diff.cases) simp_all

text \<open>
  C6, as the code has it. When the peak finder returns fewer than two peaks, none or one,
  \<^verbatim>\<open>min(np.diff(peaks))\<close> is taken of an empty array and raises ValueError before the
  valleys are looked for. The error leaves \<open>analyze\<close> and reaches the caller; the session is
  as it was.
\<close>

theorem few_peaks_raise:
  assumes "raw_data s = Some (tm, vals)"
    and "moving_average vals (moving_avg_window cfg) = Inr mavg"
    and "2 \<le> length (truncate_time tm (moving_avg_window cfg))"
    and "py_max mavg = Inr mx" and "py_min mavg = Inr mn"
    and "find_peaks (lib w) mavg ((mx - mn) * peak_finding_sensitivity cfg) None = Inr pks"
    and "length pks < 2"
  shows "detect_landmarks (lib w) mavg (peak_finding_sensitivity cfg) = Inl ValueError
         \<and> analyze w s cfg = Some (Raised ValueError, s)"
proof -
  have d: "detect_landmarks (lib w) mavg (peak_finding_sensitivity cfg) = Inl ValueError"
    using assms(4-7) by (simp add: detect_landmarks_def bind_err_def Let_def np_diff_short py_min_def)
  from assms(3) have i: "py_index (truncate_time tm (moving_avg_window cfg)) 1
        = Inr (truncate_time tm (moving_avg_window cfg) ! 1)"
      "py_index (truncate_time tm (moving_avg_window cfg)) 0
        = Inr (truncate_time tm (moving_avg_window cfg) ! 0)"
    by (auto simp add: py_index_def)
  have "analysis (lib w) cfg (tm, vals) = Some (Inl ValueError)"
    using assms(2) d i by (simp add: analysis_def bind_run_def Let_def)
  with assms(1) d show ?thesis by (simp add: analyze_def is_loaded_def)
qed

text \<open>Four samples, a window of 2, and a peak finder that finds no peak.\<close>

theorem few_peaks_raise_witness:
  "moving_average [0, 0, 2, - 2] 2 = Inr [0, 1, 0]
   \<and> truncate_time [0, 1, 2, 3] 2 = [0, 1, 2]
   \<and> py_max [0, 1, 0 :: real] = Inr 1 \<and> py_min [0, 1, 0 :: real] = Inr 0
   \<and> analyze
        \<lparr>lib = \<lparr>find_peaks = (\<lambda>x prominence distance. Inr []),
                savgol_filter = (\<lambda>x window_length polyorder. Inr x),
                percentile = (\<lambda>a q. Inr 0)\<rparr>,
         open_csv = (\<lambda>path delim. Inl OSError), py_float = (\<lambda>str. None),
         visualize = (\<lambda>d. None), export = (\<lambda>d dir_path prefix. None)\<rparr>
        \<lparr>data_path = None, data = None, raw_data = Some ([0, 1, 2, 3], [0, 0, 2, - 2])\<rparr>
        (default_config\<lparr>moving_avg_window := 2\<rparr>)
      = Some (Raised ValueError,
         \<lparr>data_path = None, data = None, raw_data = Some ([0, 1, 2, 3], [0, 0, 2, - 2])\<rparr>)"
  using few_peaks_raise
    [of "\<lparr>data_path = None, data = None, raw_data = Some ([0, 1, 2, 3], [0, 0, 2, - 2])\<rparr>"
        "[0, 1, 2, 3]" "[0, 0, 2, - 2]" "default_config\<lparr>moving_avg_window := 2\<rparr>" "[0, 1, 0]"
        1 0
        "\<lparr>lib = \<lparr>find_peaks = (\<lambda>x prominence distance. Inr []),
                savgol_filter = (\<lambda>x window_length polyorder. Inr x),
                percentile = (\<lambda>a q. Inr 0)\<rparr>,
         open_csv = (\<lambda>path delim. Inl OSError), py_float = (\<lambda>str. None),
         visualize = (\<lambda>d. None), export = (\<lambda>d dir_path prefix. None)\<rparr>" "[]"]
  by (simp add: moving_average_def np_ones_def convolve_valid_def bind_err_def
      Let_def upt_rec truncate_time_def py_slice_def clamp_index_def default_config_def
      py_max_def py_min_def)

text \<open>
  C6 as it is worded fails for one peak. With a peak finder that finds the single peak at
  index 1, on the same four samples, the valleys are not looked for without a distance:
  the analysis raises ValueError.
\<close>

theorem few_peaks_counterexample:
  "analysis
     \<lparr>find_peaks = (\<lambda>x prominence distance. Inr [1]),
      savgol_filter = (\<lambda>x window_length polyorder. Inr x),
      percentile = (\<lambda>a q. Inr 0)\<rparr>
     (default_config\<lparr>moving_avg_window := 2\<rparr>) ([0, 1, 2, 3], [0, 0, 2, - 2])
   = Some (Inl ValueError)"
  by (simp add: analysis_def moving_average_def np_ones_def convolve_valid_def bind_err_def
      bind_run_def Let_def upt_rec truncate_time_def py_slice_def clamp_index_def py_index_def
      default_config_def detect_landmarks_def py_max_def py_min_def)

section \<open>The session\<close>

text \<open>
  C7, as the code has it. On a session without an analysis result \<open>get_data\<close> does not raise:
  it returns \<^verbatim>\<open>None\<close> and leaves the session as it is.
\<close>

theorem get_data_without_result: "\<not> has_data s \<Longrightarrow> get_data s = (Data None, s)"
  by (simp add: get_data_def has_data_def)

theorem get_data_without_result_witness:
  "\<not> has_data (new_session (Some ''rec.csv''))
   \<and> get_data (new_session (Some ''rec.csv'')) = (Data None, new_session (Some ''rec.csv''))"
  using get_data_without_result [of "new_session (Some ''rec.csv'')"]
  by (simp add: new_session_def has_data_def)

text \<open>C7 as it is worded fails: a new session has no result, and \<open>get_data\<close> returns a value.\<close>

theorem get_data_counterexample:
  "\<not> has_data (new_session None) \<and> fst (get_data (new_session None)) = Data None"
  by (simp add: get_data_def new_session_def has_data_def)

text \<open>
  C8. \<open>set_data\<close> stores the new raw series, and \<open>set_data\<close> and \<open>load\<close> both leave the stored
  analysis result exactly as it was before the call, so a result computed from earlier raw
  data stays in the session. \<open>set_file\<close> is the one operation that clears it.
\<close>

theorem set_data_and_load_keep_result:
  "raw_data (snd (set_data s tm pr)) = Some (tm, pr)
   \<and> data (snd (set_data s tm pr)) = data s
   \<and> data (snd (load w s tc pc sk dl)) = data s
   \<and> data (snd (set_file s path)) = None"
  by (auto simp add: set_data_def load_def set_file_def split: option.splits sum.splits)

text \<open>
  C10. When a call of any session method raises, the three fields of the session are what
  they were before the call. This holds for \<open>set_file\<close> as well, which never raises.
\<close>

theorem raise_leaves_state:
  "perform w s c = Some (Raised e, s') \<Longrightarrow> s' = s"
  by (cases c)
     (auto simp add: set_data_def set_file_def load_def analyze_def visualize_data_def
        export_data_def get_data_def get_file_path_def split: option.splits sum.splits if_splits)

text \<open>
  A load whose second row has the pressure cell \<^verbatim>\<open>x\<close>: \<^verbatim>\<open>float\<close> raises ValueError after
  the first row has been read, and the raw series stored before is still there.
\<close>

theorem raise_leaves_state_witness:
  "perform
     \<lparr>lib = \<lparr>find_peaks = (\<lambda>x prominence distance. Inr [1]),
             savgol_filter = (\<lambda>x window_length polyorder. Inr x),
             percentile = (\<lambda>a q. Inr 0)\<rparr>,
      open_csv = (\<lambda>path delim. Inr [[''1'', ''2''], [''3'', ''x'']]),
      py_float = (\<lambda>str. if str = ''1'' then Some 1 else if str = ''2'' then Some 2
                          else if str = ''3'' then Some 3 else None),
      visualize = (\<lambda>d. None), export = (\<lambda>d dir_path prefix. None)\<rparr>
     \<lparr>data_path = Some ''rec.csv'', data = None, raw_data = Some ([0], [5])\<rparr>
     (Load 0 1 0 '','')
   = Some (Raised ValueError,
      \<lparr>data_path = Some ''rec.csv'', data = None, raw_data = Some ([0], [5])\<rparr>)"
  using raise_leaves_state
    [of "\<lparr>lib = \<lparr>find_peaks = (\<lambda>x prominence distance. Inr [1]),
             savgol_filter = (\<lambda>x window_length polyorder. Inr x),
             percentile = (\<lambda>a q. Inr 0)\<rparr>,
      open_csv = (\<lambda>path delim. Inr [[''1'', ''2''], [''3'', ''x'']]),
      py_float = (\<lambda>str. if str = ''1'' then Some 1 else if str = ''2'' then Some 2
                          else if str = ''3'' then Some 3 else None),
      visualize = (\<lambda>d. None), export = (\<lambda>d dir_path prefix. None)\<rparr>"
     "\<lparr>data_path = Some ''rec.csv'', data = None, raw_data = Some ([0], [5])\<rparr>"
     "Load 0 1 0 '',''" ValueError
     "\<lparr>data_path = Some ''rec.csv'', data = None, raw_data = Some ([0], [5])\<rparr>"]
  by (simp add: load_def has_file_def bind_err_def enumerate_eq_zip upt_rec py_index_def
      float_of_def)

end
